theory Spec2Isabelle
  imports Complex_Main
begin

section \<open>Strings and arrays as the TypeScript source uses them\<close>

text \<open>
  A string is a list of 8-bit characters. The white space that \<^verbatim>\<open>String.prototype.trim\<close>
  removes is the ECMAScript set (WhiteSpace and LineTerminator) restricted to that range:
  TAB, LF, VT, FF, CR, SPACE and NO-BREAK SPACE.
\<close>

definition isWhiteSpace :: "char \<Rightarrow> bool" where
  "isWhiteSpace c =
     (c = CHR 0x09 \<or> c = CHR 0x0A \<or> c = CHR 0x0B \<or> c = CHR 0x0C \<or> c = CHR 0x0D
      \<or> c = CHR 0x20 \<or> c = CHR 0xA0)"

definition trim :: "string \<Rightarrow> string" where
  "trim s = rev (dropWhile isWhiteSpace (rev (dropWhile isWhiteSpace s)))"

text \<open>\<^verbatim>\<open>arr[i]\<close>: \<open>None\<close> is JavaScript's \<^verbatim>\<open>undefined\<close>, the value of a read past the end.\<close>

definition elem :: "'a list \<Rightarrow> nat \<Rightarrow> 'a option" where
  "elem xs i = (if i < length xs then Some (xs ! i) else None)"

text \<open>\<^verbatim>\<open>x || d\<close> on a string that may be undefined: the empty string and undefined are falsy.\<close>

definition orElse :: "string option \<Rightarrow> string \<Rightarrow> string" where
  "orElse x d = (case x of None \<Rightarrow> d | Some s \<Rightarrow> if s = [] then d else s)"

text \<open>Truthiness of a string that may be undefined.\<close>

definition truthy :: "string option \<Rightarrow> bool" where
  "truthy x = (case x of None \<Rightarrow> False | Some s \<Rightarrow> s \<noteq> [])"

text \<open>Prepending a character to the first piece of a split in progress.\<close>

fun consHead :: "'a \<Rightarrow> 'a list list \<Rightarrow> 'a list list" where
  "consHead c [] = [[c]]"
| "consHead c (l # ls) = (c # l) # ls"

text \<open>
  \<^verbatim>\<open>content.split(/\r?\n/)\<close>: a separator is CR LF or a lone LF; a CR that is not followed
  by LF stays in its line; the empty string splits into one empty line.
\<close>

fun splitLines :: "string \<Rightarrow> string list" where
  "splitLines [] = [[]]"
| "splitLines [c] = (if c = CHR 0x0A then [[], []] else [[c]])"
| "splitLines (c # d # cs) =
     (if c = CHR 0x0A then [] # splitLines (d # cs)
      else if c = CHR 0x0D \<and> d = CHR 0x0A then [] # splitLines cs
      else consHead c (splitLines (d # cs)))"

text \<open>
  \<^verbatim>\<open>line.split(/[...]/)\<close> on a one-character class \<open>p\<close>: every occurrence separates two
  pieces, empty pieces are kept (also the one after a trailing separator).
\<close>

fun splitOn :: "(char \<Rightarrow> bool) \<Rightarrow> string \<Rightarrow> string list" where
  "splitOn p [] = [[]]"
| "splitOn p (c # cs) = (if p c then [] # splitOn p cs else consHead c (splitOn p cs))"

text \<open>The class \<^verbatim>\<open>/[\*~\^]/\<close> of universalEDIParser.ts and the class \<^verbatim>\<open>/[\*~]/\<close> of ediParser.ts.\<close>

definition isDelimiter :: "char \<Rightarrow> bool" where
  "isDelimiter c = (c = CHR ''*'' \<or> c = CHR ''~'' \<or> c = CHR ''^'')"

definition legacy_isDelimiter :: "char \<Rightarrow> bool" where
  "legacy_isDelimiter c = (c = CHR ''*'' \<or> c = CHR ''~'')"

text \<open>\<^verbatim>\<open>s.includes(p)\<close>.\<close>

fun startsWith :: "string \<Rightarrow> string \<Rightarrow> bool" where
  "startsWith s [] = True"
| "startsWith [] (p # ps) = False"
| "startsWith (c # cs) (p # ps) = (c = p \<and> startsWith cs ps)"

fun includesStr :: "string \<Rightarrow> string \<Rightarrow> bool" where
  "includesStr [] p = (p = [])"
| "includesStr (c # cs) p = (startsWith (c # cs) p \<or> includesStr cs p)"

definition isDigit :: "char \<Rightarrow> bool" where
  "isDigit c = (48 \<le> (of_char c :: nat) \<and> (of_char c :: nat) \<le> 57)"

text \<open>\<^verbatim>\<open>toLowerCase\<close> on 8-bit characters: A-Z and the Latin-1 capitals (0xC0-0xDE but 0xD7).\<close>

definition lowerChar :: "char \<Rightarrow> char" where
  "lowerChar c =
     (let n = of_char c :: nat in
      if (65 \<le> n \<and> n \<le> 90) \<or> (192 \<le> n \<and> n \<le> 222 \<and> n \<noteq> 215) then char_of (n + 32)
      else c)"

definition toLowerCase :: "string \<Rightarrow> string" where
  "toLowerCase s = map lowerChar s"

section \<open>Data model\<close>

datatype X12Type =
  T834 | T820 | T837 | T835 | T270 | T271 | T278 | T999 | T850 | T855 | T856 | T810 | Unknown

text \<open>
  A segment as both parsers build it. The optional annotations of universalEDIParser.ts
  (\<^verbatim>\<open>definition\<close>, \<^verbatim>\<open>isValid\<close>, \<^verbatim>\<open>errors\<close>) are looked up in a static table after the split
  and never read back by the functions modelled here; they are left out.
\<close>

record EDISegment =
  tag :: string
  elements :: "string list"
  raw :: string
  lineNumber :: nat

record Metadata =
  sender :: string
  receiver :: string
  date :: string
  controlNumber :: string

record MetadataX = Metadata +
  version :: string
  testIndicator :: string

record 'm EDITransaction =
  type :: X12Type
  segments :: "EDISegment list"
  metadata :: 'm

section \<open>Format detection\<close>

text \<open>ediParser.ts, \<^verbatim>\<open>detectEDIType\<close>: the first line that contains a header literal decides.\<close>

fun detectEDIType_lines :: "string list \<Rightarrow> X12Type" where
  "detectEDIType_lines [] = Unknown"
| "detectEDIType_lines (line # rest) =
     (if includesStr line ''ST*834'' \<or> includesStr line ''ST*834*'' then T834
      else if includesStr line ''ST*820'' \<or> includesStr line ''ST*820*'' then T820
      else detectEDIType_lines rest)"

definition detectEDIType :: "string \<Rightarrow> X12Type" where
  "detectEDIType content = detectEDIType_lines (splitLines content)"

text \<open>
  universalEDIParser.ts, \<^verbatim>\<open>detectEDIFormat\<close>. \<^verbatim>\<open>line.match(/ST\*(\d{3})/)\<close> yields the three
  digits of the leftmost match in the line; only that match is looked up in the table.
\<close>

fun matchST :: "string \<Rightarrow> string option" where
  "matchST [] = None"
| "matchST (c # cs) =
     (if startsWith (c # cs) ''ST*'' \<and> length cs \<ge> 5
         \<and> isDigit (cs ! 2) \<and> isDigit (cs ! 3) \<and> isDigit (cs ! 4)
      then Some [cs ! 2, cs ! 3, cs ! 4]
      else matchST cs)"

text \<open>The keys of the table \<^verbatim>\<open>X12_FORMATS\<close> (x12Formats.ts).\<close>

definition formatOfCode :: "string \<Rightarrow> X12Type option" where
  "formatOfCode code =
     (if code = ''834'' then Some T834 else if code = ''820'' then Some T820
      else if code = ''837'' then Some T837 else if code = ''835'' then Some T835
      else if code = ''270'' then Some T270 else if code = ''271'' then Some T271
      else if code = ''278'' then Some T278 else if code = ''999'' then Some T999
      else if code = ''850'' then Some T850 else if code = ''855'' then Some T855
      else if code = ''856'' then Some T856 else if code = ''810'' then Some T810
      else None)"

fun detectHeader :: "string list \<Rightarrow> X12Type option" where
  "detectHeader [] = None"
| "detectHeader (line # rest) =
     (case matchST line of
        None \<Rightarrow> detectHeader rest
      | Some formatCode \<Rightarrow>
          (case formatOfCode formatCode of
             Some t \<Rightarrow> Some t
           | None \<Rightarrow> detectHeader rest))"

definition detectEDIFormat :: "string \<Rightarrow> X12Type" where
  "detectEDIFormat content =
     (case detectHeader (splitLines content) of
        Some t \<Rightarrow> t
      | None \<Rightarrow>
         (let contentStr = toLowerCase content in
          if includesStr contentStr ''bgn*'' \<and> includesStr contentStr ''ins*'' then T834
          else if includesStr contentStr ''bpr*'' \<and> includesStr contentStr ''rmr*'' then T820
          else if includesStr contentStr ''bht*'' \<and> includesStr contentStr ''clm*'' then T837
          else if includesStr contentStr ''bpr*'' \<and> includesStr contentStr ''clp*'' then T835
          else if includesStr contentStr ''bht*'' \<and> includesStr contentStr ''eb*'' then T271
          else if includesStr contentStr ''beg*'' \<and> includesStr contentStr ''po1*'' then T850
          else if includesStr contentStr ''bak*'' \<and> includesStr contentStr ''ack*'' then T855
          else if includesStr contentStr ''bsn*'' \<and> includesStr contentStr ''td1*'' then T856
          else if includesStr contentStr ''big*'' \<and> includesStr contentStr ''it1*'' then T810
          else Unknown))"

section \<open>Tokenizers\<close>

text \<open>
  Both \<^verbatim>\<open>parseEDIContent\<close> functions filter the blank lines out first and then run
  \<^verbatim>\<open>lines.forEach((line, index) => ...)\<close> over the lines that are left; \<open>index\<close> is the
  position in that filtered array. The loop state is the segment array and the metadata
  object; the guard \<^verbatim>\<open>if (!trimmedLine) return\<close> is kept as the source has it.
\<close>

definition nonBlank :: "string \<Rightarrow> bool" where
  "nonBlank line = (trim line \<noteq> [])"

fun legacy_forEach ::
  "string list \<Rightarrow> nat \<Rightarrow> EDISegment list \<times> Metadata \<Rightarrow> EDISegment list \<times> Metadata" where
  "legacy_forEach [] index st = st"
| "legacy_forEach (line # rest) index st =
     (let trimmedLine = trim line in
      if trimmedLine = [] then legacy_forEach rest (index + 1) st
      else
        (let elements = splitOn legacy_isDelimiter trimmedLine;
             tag = orElse (elem elements 0) [];
             md = (if tag = ''ISA'' \<and> length elements \<ge> 13
                   then \<lparr>sender = orElse (elem elements 6) [],
                         receiver = orElse (elem elements 8) [],
                         date = orElse (elem elements 9) [],
                         controlNumber = orElse (elem elements 13) []\<rparr>
                   else snd st)
         in legacy_forEach rest (index + 1)
              (fst st @ [\<lparr>tag = tag, elements = elements, raw = trimmedLine,
                          lineNumber = index + 1\<rparr>], md)))"

definition legacy_parseEDIContent :: "string \<Rightarrow> Metadata EDITransaction" where
  "legacy_parseEDIContent content =
     (let lines = filter nonBlank (splitLines content);
          ty = detectEDIType content;
          st = legacy_forEach lines 0
                 ([], \<lparr>sender = [], receiver = [], date = [], controlNumber = []\<rparr>)
      in \<lparr>type = ty, segments = fst st, metadata = snd st\<rparr>)"

fun forEach ::
  "string list \<Rightarrow> nat \<Rightarrow> EDISegment list \<times> MetadataX \<Rightarrow> EDISegment list \<times> MetadataX" where
  "forEach [] index st = st"
| "forEach (line # rest) index st =
     (let trimmedLine = trim line in
      if trimmedLine = [] then forEach rest (index + 1) st
      else
        (let elements = splitOn isDelimiter trimmedLine;
             tag = orElse (elem elements 0) [];
             md = (if tag = ''ISA'' \<and> length elements \<ge> 16
                   then \<lparr>sender = orElse (elem elements 6) [],
                         receiver = orElse (elem elements 8) [],
                         date = orElse (elem elements 9) [],
                         controlNumber = orElse (elem elements 13) [],
                         version = orElse (elem elements 12) [],
                         testIndicator = orElse (elem elements 15) []\<rparr>
                   else snd st)
         in forEach rest (index + 1)
              (fst st @ [\<lparr>tag = tag, elements = elements, raw = trimmedLine,
                          lineNumber = index + 1\<rparr>], md)))"

text \<open>
  The payer lookup, the business context and the statistics that \<^verbatim>\<open>parseEDIContent\<close> attaches
  after the loop are not part of the model.
\<close>

definition parseEDIContent :: "string \<Rightarrow> MetadataX EDITransaction" where
  "parseEDIContent content =
     (let lines = filter nonBlank (splitLines content);
          ty = detectEDIFormat content;
          st = forEach lines 0
                 ([], \<lparr>sender = [], receiver = [], date = [], controlNumber = [],
                       version = [], testIndicator = []\<rparr>)
      in \<lparr>type = ty, segments = fst st, metadata = snd st\<rparr>)"

section \<open>Structural validator (ediValidator.ts)\<close>

text \<open>\<^verbatim>\<open>${n}\<close> on a non-negative integer: its decimal digits.\<close>

fun showNat :: "nat \<Rightarrow> string" where
  "showNat n =
     (if n < 10 then [char_of (48 + n)] else showNat (n div 10) @ [char_of (48 + n mod 10)])"

text \<open>\<^verbatim>\<open>${x}\<close> on a string that may be undefined.\<close>

definition showOpt :: "string option \<Rightarrow> string" where
  "showOpt x = (case x of None \<Rightarrow> ''undefined'' | Some s \<Rightarrow> s)"

fun typeName :: "X12Type \<Rightarrow> string" where
  "typeName T834 = ''834''" | "typeName T820 = ''820''" | "typeName T837 = ''837''"
| "typeName T835 = ''835''" | "typeName T270 = ''270''" | "typeName T271 = ''271''"
| "typeName T278 = ''278''" | "typeName T999 = ''999''" | "typeName T850 = ''850''"
| "typeName T855 = ''855''" | "typeName T856 = ''856''" | "typeName T810 = ''810''"
| "typeName Unknown = ''unknown''"

datatype Severity = Critical | Warning | Info

text \<open>
  \<^verbatim>\<open>EDIError\<close>. The field \<open>segment\<close> is an option because the source stores
  \<^verbatim>\<open>transaction.segments[0]\<close> there, which is undefined for an empty transaction.
\<close>

record EDIError =
  errId :: string
  errType :: Severity
  segment :: "EDISegment option"
  message :: string
  description :: string
  suggestion :: "string option"

record ValidationResult =
  isValid :: bool
  errors :: "EDIError list"
  warnings :: "EDIError list"
  totalIssues :: nat

definition REQUIRED_834_SEGMENTS :: "string list" where
  "REQUIRED_834_SEGMENTS =
     [''ISA'', ''GS'', ''ST'', ''BGN'', ''N1'', ''INS'', ''NM1'', ''SE'', ''GE'', ''IEA'']"

definition REQUIRED_820_SEGMENTS :: "string list" where
  "REQUIRED_820_SEGMENTS = [''ISA'', ''GS'', ''ST'', ''BPR'', ''N1'', ''SE'', ''GE'', ''IEA'']"

definition missingSegment :: "'m EDITransaction \<Rightarrow> string \<Rightarrow> EDIError" where
  "missingSegment transaction required =
     \<lparr>errId = ''missing-'' @ required,
      errType = Critical,
      segment = elem (segments transaction) 0,
      message = ''Missing required segment: '' @ required,
      description = ''EDI '' @ typeName (type transaction) @ '' transactions must include a ''
                      @ required @ '' segment'',
      suggestion = Some (''Add the '' @ required @ '' segment in the correct position'')\<rparr>"

definition validateRequiredSegments :: "'m EDITransaction \<Rightarrow> EDIError list \<Rightarrow> EDIError list" where
  "validateRequiredSegments transaction errs =
     (let requiredSegments =
            (if type transaction = T834 then REQUIRED_834_SEGMENTS else REQUIRED_820_SEGMENTS);
          presentSegments = set (map tag (segments transaction))
      in foldl (\<lambda>acc required.
                  if required \<in> presentSegments then acc
                  else acc @ [missingSegment transaction required])
           errs requiredSegments)"

definition validateSegmentSequence :: "'m EDITransaction \<Rightarrow> EDIError list \<Rightarrow> EDIError list" where
  "validateSegmentSequence transaction errs =
     (let segs = segments transaction;
          errs1 =
            (if length segs > 0 \<and> tag (segs ! 0) \<noteq> ''ISA''
             then errs @ [\<lparr>errId = ''isa-not-first'', errType = Critical,
                            segment = Some (segs ! 0),
                            message = ''ISA segment must be first'',
                            description =
                              ''The Interchange Control Header (ISA) must be the first segment'',
                            suggestion =
                              Some ''Move the ISA segment to the beginning of the file''\<rparr>]
             else errs)
      in if length segs > 0 \<and> tag (segs ! (length segs - 1)) \<noteq> ''IEA''
         then errs1 @ [\<lparr>errId = ''iea-not-last'', errType = Critical,
                         segment = Some (segs ! (length segs - 1)),
                         message = ''IEA segment must be last'',
                         description =
                           ''The Interchange Control Trailer (IEA) must be the last segment'',
                         suggestion = Some ''Move the IEA segment to the end of the file''\<rparr>]
         else errs1)"

definition validateControlNumbers :: "'m EDITransaction \<Rightarrow> EDIError list \<Rightarrow> EDIError list" where
  "validateControlNumbers transaction errs =
     (case (find (\<lambda>s. tag s = ''ISA'') (segments transaction),
            find (\<lambda>s. tag s = ''IEA'') (segments transaction)) of
        (Some isaSegment, Some ieaSegment) \<Rightarrow>
          (let isaControlNumber = elem (elements isaSegment) 13;
               ieaControlNumber = elem (elements ieaSegment) 2
           in if isaControlNumber \<noteq> ieaControlNumber
              then errs @ [\<lparr>errId = ''control-number-mismatch'', errType = Critical,
                             segment = Some ieaSegment,
                             message = ''Control number mismatch'',
                             description =
                               ''ISA control number ('' @ showOpt isaControlNumber
                                 @ '') doesn'' @ [CHR 0x27] @ ''t match IEA control number (''
                                 @ showOpt ieaControlNumber @ '')'',
                             suggestion = Some
                               ''Ensure both ISA and IEA segments have the same control number''\<rparr>]
              else errs)
      | _ \<Rightarrow> errs)"

text \<open>\<^verbatim>\<open>/^\d{n}$/.test(s)\<close>.\<close>

definition digitsExactly :: "nat \<Rightarrow> string \<Rightarrow> bool" where
  "digitsExactly n s = (length s = n \<and> list_all isDigit s)"

definition validateISAFormat :: "EDISegment \<Rightarrow> EDIError list \<Rightarrow> EDIError list" where
  "validateISAFormat seg errs =
     (let errs1 =
            (if length (elements seg) < 16
             then errs @ [\<lparr>errId = ''isa-insufficient-elements-'' @ showNat (lineNumber seg),
                            errType = Critical, segment = Some seg,
                            message = ''ISA segment has insufficient elements'',
                            description = ''ISA segment must have at least 16 elements'',
                            suggestion = Some
                              ''Check the ISA segment format and ensure all required elements are present''\<rparr>]
             else errs);
          dt = elem (elements seg) 9
      in if truthy dt \<and> \<not> digitsExactly 6 (showOpt dt)
         then errs1 @ [\<lparr>errId = ''isa-invalid-date-'' @ showNat (lineNumber seg),
                         errType = Warning, segment = Some seg,
                         message = ''Invalid date format in ISA segment'',
                         description =
                           ''Date '' @ [CHR 0x22] @ showOpt dt @ [CHR 0x22] @ '' should be in YYMMDD format'',
                         suggestion = Some ''Use YYMMDD format for the interchange date''\<rparr>]
         else errs1)"

definition validateDTPFormat :: "EDISegment \<Rightarrow> EDIError list \<Rightarrow> EDIError list" where
  "validateDTPFormat seg errs =
     (if length (elements seg) < 4
      then errs @ [\<lparr>errId = ''dtp-insufficient-elements-'' @ showNat (lineNumber seg),
                     errType = Warning, segment = Some seg,
                     message = ''DTP segment has insufficient elements'',
                     description = ''DTP segment should have at least 3 elements'',
                     suggestion = Some ''Ensure qualifier, format, and date are provided''\<rparr>]
      else
        (let format = elem (elements seg) 2;
             dt = elem (elements seg) 3
         in if format = Some ''D8'' \<and> truthy dt \<and> \<not> digitsExactly 8 (showOpt dt)
            then errs @ [\<lparr>errId = ''dtp-invalid-date-'' @ showNat (lineNumber seg),
                           errType = Warning, segment = Some seg,
                           message = ''Invalid date format in DTP segment'',
                           description =
                             ''Date '' @ [CHR 0x22] @ showOpt dt
                               @ [CHR 0x22] @ '' should be in CCYYMMDD format when format is D8'',
                           suggestion = Some ''Use CCYYMMDD format for D8 date qualifier''\<rparr>]
            else errs))"

definition validateDMGFormat :: "EDISegment \<Rightarrow> EDIError list \<Rightarrow> EDIError list" where
  "validateDMGFormat seg errs =
     (if length (elements seg) < 4 then errs
      else
        (let birthDate = elem (elements seg) 2;
             gender = elem (elements seg) 3;
             errs1 =
               (if truthy birthDate \<and> \<not> digitsExactly 8 (showOpt birthDate)
                then errs @ [\<lparr>errId = ''dmg-invalid-birthdate-'' @ showNat (lineNumber seg),
                               errType = Warning, segment = Some seg,
                               message = ''Invalid birth date format'',
                               description =
                                 ''Birth date '' @ [CHR 0x22] @ showOpt birthDate
                                   @ [CHR 0x22] @ '' should be in CCYYMMDD format'',
                               suggestion = Some ''Use CCYYMMDD format for birth dates''\<rparr>]
                else errs)
         in if truthy gender \<and> gender \<noteq> Some ''M'' \<and> gender \<noteq> Some ''F''
                 \<and> gender \<noteq> Some ''U''
            then errs1 @ [\<lparr>errId = ''dmg-invalid-gender-'' @ showNat (lineNumber seg),
                            errType = Warning, segment = Some seg,
                            message = ''Invalid gender code'',
                            description =
                              ''Gender code '' @ [CHR 0x22] @ showOpt gender @ [CHR 0x22] @ '' should be M, F, or U'',
                            suggestion = Some
                              ''Use M (Male), F (Female), or U (Unknown) for gender codes''\<rparr>]
            else errs1))"

definition validateDataFormats :: "'m EDITransaction \<Rightarrow> EDIError list \<Rightarrow> EDIError list" where
  "validateDataFormats transaction errs =
     foldl (\<lambda>acc seg.
              if tag seg = ''ISA'' then validateISAFormat seg acc
              else if tag seg = ''DTP'' then validateDTPFormat seg acc
              else if tag seg = ''DMG'' then validateDMGFormat seg acc
              else acc)
       errs (segments transaction)"

text \<open>
  \<^verbatim>\<open>validate834BusinessRules\<close>: the loop variable \<open>lastINS\<close> starts at \<open>-1\<close>, here
  \<open>None\<close>; the loop state is the index, \<open>lastINS\<close> and the error array.
\<close>

fun orphanScan ::
  "EDISegment list \<Rightarrow> nat \<Rightarrow> nat option \<Rightarrow> EDIError list \<Rightarrow> EDIError list" where
  "orphanScan [] index lastINS errs = errs"
| "orphanScan (seg # rest) index lastINS errs =
     (if tag seg = ''INS'' then orphanScan rest (index + 1) (Some index) errs
      else if tag seg = ''NM1'' \<and> elem (elements seg) 1 = Some ''IL'' then
        (if (case lastINS of None \<Rightarrow> True | Some l \<Rightarrow> index - l > 10)
         then orphanScan rest (index + 1) lastINS
                (errs @ [\<lparr>errId = ''orphaned-nm1-'' @ showNat (lineNumber seg),
                           errType = Warning, segment = Some seg,
                           message = ''NM1 segment may be orphaned'',
                           description =
                             ''Individual NM1 segments should closely follow their corresponding INS segment'',
                           suggestion = Some
                             ''Ensure NM1*IL segments are properly associated with INS segments''\<rparr>])
         else orphanScan rest (index + 1) lastINS errs)
      else orphanScan rest (index + 1) lastINS errs)"

definition validate834BusinessRules :: "'m EDITransaction \<Rightarrow> EDIError list \<Rightarrow> EDIError list" where
  "validate834BusinessRules transaction errs = orphanScan (segments transaction) 0 None errs"

text \<open>\<^verbatim>\<open>/^\d+(\.\d{2})?$/.test(s)\<close>.\<close>

definition amountFormat :: "string \<Rightarrow> bool" where
  "amountFormat s =
     (let ds = takeWhile isDigit s; rest = dropWhile isDigit s
      in ds \<noteq> [] \<and>
         (rest = [] \<or>
          (length rest = 3 \<and> rest ! 0 = CHR ''.'' \<and> isDigit (rest ! 1) \<and> isDigit (rest ! 2))))"

definition validate820BusinessRules :: "'m EDITransaction \<Rightarrow> EDIError list \<Rightarrow> EDIError list" where
  "validate820BusinessRules transaction errs =
     (let bprSegments = filter (\<lambda>s. tag s = ''BPR'') (segments transaction);
          errs1 =
            (if length bprSegments = 0
             then errs @ [\<lparr>errId = ''missing-bpr'', errType = Critical,
                            segment = elem (segments transaction) 0,
                            message = ''Missing BPR segment'',
                            description =
                              ''EDI 820 transactions must include at least one BPR (Financial Information) segment'',
                            suggestion = Some ''Add a BPR segment with payment details''\<rparr>]
             else errs)
      in foldl (\<lambda>acc seg.
                  (let amount = elem (elements seg) 2
                   in if truthy amount \<and> \<not> amountFormat (showOpt amount)
                      then acc @ [\<lparr>errId = ''bpr-invalid-amount-'' @ showNat (lineNumber seg),
                                    errType = Warning, segment = Some seg,
                                    message = ''Invalid payment amount format'',
                                    description =
                                      ''Amount '' @ [CHR 0x22] @ showOpt amount
                                        @ [CHR 0x22] @ '' should be in decimal format with up to 2 decimal places'',
                                    suggestion = Some
                                      ''Use decimal format like 1234.56 for payment amounts''\<rparr>]
                      else acc))
           errs1 bprSegments)"

definition validateEDITransaction :: "'m EDITransaction \<Rightarrow> ValidationResult" where
  "validateEDITransaction transaction =
     (let errs1 = validateRequiredSegments transaction [];
          errs2 = validateSegmentSequence transaction errs1;
          errs3 = validateControlNumbers transaction errs2;
          errs4 = validateDataFormats transaction errs3;
          errs5 =
            (if type transaction = T834 then validate834BusinessRules transaction errs4
             else if type transaction = T820 then validate820BusinessRules transaction errs4
             else errs4);
          warns = filter (\<lambda>e. errType e = Warning) errs5;
          criticalErrors = filter (\<lambda>e. errType e = Critical) errs5
      in \<lparr>isValid = (length criticalErrors = 0),
          errors = criticalErrors,
          warnings = warns,
          totalIssues = length errs5\<rparr>)"

section \<open>Numbers\<close>

text \<open>
  A JavaScript number as \<^verbatim>\<open>parseFloat\<close> produces it. \<open>Num q\<close> stands for the double nearest
  to the rational \<open>q\<close>; the model keeps \<open>q\<close> itself and leaves the rounding (and the overflow
  of a huge literal to Infinity) out. \<open>NaN\<close> and the two infinities are their own values.
\<close>

datatype jsnumber = NaN | Num rat | PosInfinity | NegInfinity

definition digitsVal :: "string \<Rightarrow> nat" where
  "digitsVal ds = foldl (\<lambda>a c. 10 * a + (of_char c - 48)) 0 ds"

definition scale10 :: "rat \<Rightarrow> int \<Rightarrow> rat" where
  "scale10 q e = (if e \<ge> 0 then q * 10 ^ nat e else q / 10 ^ nat (- e))"

text \<open>ExponentPart: \<^verbatim>\<open>[eE][+-]?[0-9]+\<close>, read only when it is complete.\<close>

definition parseExponent :: "string \<Rightarrow> int" where
  "parseExponent r =
     (case r of
        [] \<Rightarrow> 0
      | c # r1 \<Rightarrow>
          if c = CHR ''e'' \<or> c = CHR ''E'' then
            (case r1 of
               [] \<Rightarrow> 0
             | sg # r2 \<Rightarrow>
                 if sg = CHR ''+'' \<or> sg = CHR ''-'' then
                   (let ds = takeWhile isDigit r2
                    in if ds = [] then 0
                       else if sg = CHR ''-'' then - int (digitsVal ds) else int (digitsVal ds))
                 else
                   (let ds = takeWhile isDigit r1
                    in if ds = [] then 0 else int (digitsVal ds)))
          else 0)"

text \<open>
  The longest prefix that is a StrUnsignedDecimalLiteral other than Infinity:
  digits, an optional point with optional digits, an optional exponent; or a point
  followed by digits. \<open>None\<close> when no prefix is one.
\<close>

definition parseUnsigned :: "string \<Rightarrow> rat option" where
  "parseUnsigned s =
     (let ip = takeWhile isDigit s;
          r1 = dropWhile isDigit s;
          hasDot = (r1 \<noteq> [] \<and> hd r1 = CHR ''.'');
          fp = (if hasDot then takeWhile isDigit (tl r1) else []);
          r2 = (if hasDot then dropWhile isDigit (tl r1) else r1)
      in if ip = [] \<and> fp = [] then None
         else Some (scale10 (of_nat (digitsVal (ip @ fp)) / 10 ^ length fp) (parseExponent r2)))"

definition parseFloat :: "string \<Rightarrow> jsnumber" where
  "parseFloat s =
     (let t = dropWhile isWhiteSpace s;
          neg = (t \<noteq> [] \<and> hd t = CHR ''-'');
          u = (if t \<noteq> [] \<and> (hd t = CHR ''-'' \<or> hd t = CHR ''+'') then tl t else t)
      in if startsWith u ''Infinity'' then (if neg then NegInfinity else PosInfinity)
         else (case parseUnsigned u of
                 None \<Rightarrow> NaN
               | Some q \<Rightarrow> Num (if neg then - q else q)))"

text \<open>
  \<^verbatim>\<open>`${x || '0'}`\<close> on a number: \<open>NaN\<close> and zero are falsy. The decimal text of a finite
  non-zero number is JavaScript's Number-to-String conversion, a parameter \<open>nts\<close> here.
\<close>

definition numberOr :: "(rat \<Rightarrow> string) \<Rightarrow> jsnumber \<Rightarrow> string \<Rightarrow> string" where
  "numberOr nts x d =
     (case x of
        NaN \<Rightarrow> d
      | Num q \<Rightarrow> if q = 0 then d else nts q
      | PosInfinity \<Rightarrow> ''Infinity''
      | NegInfinity \<Rightarrow> ''-Infinity'')"

section \<open>Business extractor (universalEDIParser.ts)\<close>

text \<open>
  The extracted objects. A field read from \<^verbatim>\<open>segment.elements[i]\<close> is an option: \<open>None\<close>
  is undefined. Field names that two objects of the source share (\<^verbatim>\<open>id\<close>, \<^verbatim>\<open>idQualifier\<close>,
  \<^verbatim>\<open>maintenanceTypeCode\<close>, \<^verbatim>\<open>controlNumber\<close>, \<^verbatim>\<open>date\<close>, ...) carry a prefix in all but one.
\<close>

record Name =
  qualifier :: "string option"
  lastName :: "string option"
  firstName :: "string option"
  middleName :: "string option"
  suffix :: "string option"
  idQualifier :: "string option"
  nameId :: "string option"

record Demographics =
  dateQualifier :: "string option"
  birthDate :: "string option"
  genderCode :: "string option"
  maritalStatus :: "string option"
  raceEthnicity :: "string option"

record Coverage =
  covMaintenanceTypeCode :: "string option"
  covMaintenanceReasonCode :: "string option"
  insuranceLineCode :: "string option"
  planCoverageDescription :: "string option"
  coverageLevelCode :: "string option"

record Member =
  memberLevelCode :: "string option"
  relationshipCode :: "string option"
  maintenanceTypeCode :: "string option"
  maintenanceReasonCode :: "string option"
  benefitStatusCode :: "string option"
  demographics :: Demographics
  healthCoverage :: "Coverage list"
  dates :: "string list"
  name :: "Name option"

record Remittance =
  referenceQualifier :: "string option"
  memberGroupNumber :: "string option"
  remittanceAmount :: jsnumber
  adjustmentAmount :: jsnumber

record Payment =
  transactionHandlingCode :: "string option"
  monetaryAmount :: jsnumber
  creditDebitFlag :: "string option"
  paymentMethodCode :: "string option"
  paymentFormatCode :: "string option"
  originatingCompanyId :: "string option"
  originatingCompanySupplementalCode :: "string option"
  receivingCompanyId :: "string option"
  receivingCompanySupplementalCode :: "string option"
  effectiveEntryDate :: "string option"
  remittanceDetails :: "Remittance list"

text \<open>An entity of \<^verbatim>\<open>extractEntities\<close>; its constant fields \<^verbatim>\<open>address: null\<close> and
  \<^verbatim>\<open>contacts: []\<close> are left out.\<close>

record Entity =
  entityQualifier :: "string option"
  entityName :: "string option"
  entityIdQualifier :: "string option"
  entityId :: "string option"

record InterchangeControl =
  authorizationQualifier :: "string option"
  authorizationInformation :: "string option"
  securityQualifier :: "string option"
  securityInformation :: "string option"
  senderQualifier :: "string option"
  senderId :: "string option"
  receiverQualifier :: "string option"
  receiverId :: "string option"
  interchangeDate :: "string option"
  interchangeTime :: "string option"
  controlStandards :: "string option"
  controlVersion :: "string option"
  isaControlNumber :: "string option"
  acknowledgmentRequested :: "string option"
  isaTestIndicator :: "string option"

record FunctionalGroup =
  functionalCode :: "string option"
  applicationSender :: "string option"
  applicationReceiver :: "string option"
  gsDate :: "string option"
  gsTime :: "string option"
  groupControlNumber :: "string option"
  responsibleAgency :: "string option"
  gsVersion :: "string option"

record TransactionSet =
  transactionSetIdentifier :: "string option"
  transactionSetControlNumber :: "string option"

record Header =
  interchangeControl :: InterchangeControl
  functionalGroup :: FunctionalGroup
  transactionSet :: TransactionSet

record Data =
  entities :: "Entity list"
  members :: "Member list"
  payments :: "Payment list"
  claims :: "unit list"

text \<open>
  \<^verbatim>\<open>JSONConversionResult\<close>. \<open>originalFormat\<close> is \<^verbatim>\<open>metadata.originalFormat\<close>; the conversion
  time stamp and the copied statistics are left out.
\<close>

record JSONConversionResult =
  header :: Header
  data :: Data
  originalFormat :: X12Type

text \<open>The loop of \<^verbatim>\<open>extract834Members\<close>: the state is the result array and \<open>currentMember\<close>.\<close>

definition push :: "'a list \<Rightarrow> 'a option \<Rightarrow> 'a list" where
  "push xs cur = (case cur of None \<Rightarrow> xs | Some x \<Rightarrow> xs @ [x])"

definition step834 :: "Member list \<times> Member option \<Rightarrow> EDISegment \<Rightarrow> Member list \<times> Member option" where
  "step834 st seg =
     (let ms = fst st; currentMember = snd st; es = elements seg in
      if tag seg = ''INS'' then
        (push ms currentMember,
         Some \<lparr>memberLevelCode = elem es 1,
               relationshipCode = elem es 2,
               maintenanceTypeCode = elem es 3,
               maintenanceReasonCode = elem es 4,
               benefitStatusCode = elem es 5,
               demographics = \<lparr>dateQualifier = None, birthDate = None, genderCode = None,
                                maritalStatus = None, raceEthnicity = None\<rparr>,
               healthCoverage = [],
               dates = [],
               name = None\<rparr>)
      else if tag seg = ''NM1'' then
        (case currentMember of
           Some m \<Rightarrow>
             if elem es 1 = Some ''IL''
             then (ms, Some (m\<lparr>name := Some \<lparr>qualifier = elem es 1,
                                                lastName = elem es 3,
                                                firstName = elem es 4,
                                                middleName = elem es 5,
                                                suffix = elem es 7,
                                                idQualifier = elem es 8,
                                                nameId = elem es 9\<rparr>\<rparr>))
             else st
         | None \<Rightarrow> st)
      else if tag seg = ''DMG'' then
        (case currentMember of
           Some m \<Rightarrow>
             (ms, Some (m\<lparr>demographics := \<lparr>dateQualifier = elem es 1,
                                              birthDate = elem es 2,
                                              genderCode = elem es 3,
                                              maritalStatus = elem es 4,
                                              raceEthnicity = elem es 5\<rparr>\<rparr>))
         | None \<Rightarrow> st)
      else if tag seg = ''HD'' then
        (case currentMember of
           Some m \<Rightarrow>
             (ms, Some (m\<lparr>healthCoverage := healthCoverage m @
                            [\<lparr>covMaintenanceTypeCode = elem es 1,
                              covMaintenanceReasonCode = elem es 2,
                              insuranceLineCode = elem es 3,
                              planCoverageDescription = elem es 4,
                              coverageLevelCode = elem es 5\<rparr>]\<rparr>))
         | None \<Rightarrow> st)
      else st)"

definition extract834Members :: "EDISegment list \<Rightarrow> Member list" where
  "extract834Members segs = (let st = foldl step834 ([], None) segs in push (fst st) (snd st))"

text \<open>The loop of \<^verbatim>\<open>extract820Payments\<close>.\<close>

definition step820 ::
  "Payment list \<times> Payment option \<Rightarrow> EDISegment \<Rightarrow> Payment list \<times> Payment option" where
  "step820 st seg =
     (let ps = fst st; currentPayment = snd st; es = elements seg in
      if tag seg = ''BPR'' then
        (push ps currentPayment,
         Some \<lparr>transactionHandlingCode = elem es 1,
               monetaryAmount = parseFloat (orElse (elem es 2) ''0''),
               creditDebitFlag = elem es 3,
               paymentMethodCode = elem es 4,
               paymentFormatCode = elem es 5,
               originatingCompanyId = elem es 7,
               originatingCompanySupplementalCode = elem es 8,
               receivingCompanyId = elem es 10,
               receivingCompanySupplementalCode = elem es 11,
               effectiveEntryDate = elem es 16,
               remittanceDetails = []\<rparr>)
      else if tag seg = ''RMR'' then
        (case currentPayment of
           Some p \<Rightarrow>
             (ps, Some (p\<lparr>remittanceDetails := remittanceDetails p @
                            [\<lparr>referenceQualifier = elem es 1,
                              memberGroupNumber = elem es 2,
                              remittanceAmount = parseFloat (orElse (elem es 3) ''0''),
                              adjustmentAmount = parseFloat (orElse (elem es 4) ''0'')\<rparr>]\<rparr>))
         | None \<Rightarrow> st)
      else st)"

definition extract820Payments :: "EDISegment list \<Rightarrow> Payment list" where
  "extract820Payments segs = (let st = foldl step820 ([], None) segs in push (fst st) (snd st))"








section \<open>Round-trip converter (universalEDIParser.ts)\<close>

definition padEnd :: "nat \<Rightarrow> string \<Rightarrow> string" where
  "padEnd n s = s @ replicate (n - length s) (CHR '' '')"

text \<open>\<^verbatim>\<open>lines.join('\n')\<close>.\<close>

fun joinLines :: "string list \<Rightarrow> string" where
  "joinLines [] = []"
| "joinLines [l] = l"
| "joinLines (l # l' # ls) = l @ [CHR 0x0A] @ joinLines (l' # ls)"

definition insLine :: "Member \<Rightarrow> string" where
  "insLine member =
     ''INS*'' @ orElse (memberLevelCode member) ''Y'' @ ''*''
       @ orElse (relationshipCode member) ''18'' @ ''*''
       @ orElse (maintenanceTypeCode member) ''030'' @ ''*''
       @ orElse (maintenanceReasonCode member) ''AI'' @ ''*''
       @ orElse (benefitStatusCode member) ''A'' @ ''***AC~''"

definition nm1Line :: "Name \<Rightarrow> string" where
  "nm1Line nm =
     ''NM1*IL*1*'' @ orElse (lastName nm) [] @ ''*'' @ orElse (firstName nm) [] @ ''*''
       @ orElse (middleName nm) [] @ ''**34*'' @ orElse (nameId nm) [] @ ''~''"

definition dmgLine :: "Demographics \<Rightarrow> string" where
  "dmgLine dm =
     ''DMG*D8*'' @ orElse (birthDate dm) [] @ ''*'' @ orElse (genderCode dm) [] @ ''~''"

definition hdLine :: "Coverage \<Rightarrow> string" where
  "hdLine coverage =
     ''HD*'' @ orElse (covMaintenanceTypeCode coverage) ''030'' @ ''**''
       @ orElse (insuranceLineCode coverage) ''HLT'' @ ''*''
       @ orElse (planCoverageDescription coverage) [] @ ''*''
       @ orElse (coverageLevelCode coverage) ''EMP'' @ ''~''"

text \<open>
  The lines of one member. \<^verbatim>\<open>member.demographics\<close> is always an object, hence truthy,
  so the DMG line is always written; the NM1 line only when \<^verbatim>\<open>member.name\<close> is set.
\<close>

definition memberLines :: "Member \<Rightarrow> string list" where
  "memberLines member =
     [insLine member]
       @ (case name member of None \<Rightarrow> [] | Some nm \<Rightarrow> [nm1Line nm])
       @ [dmgLine (demographics member)]
       @ map hdLine (healthCoverage member)"

definition reconstruct834Segments :: "Member list \<Rightarrow> string list" where
  "reconstruct834Segments ms =
     ''BGN*00*ABC123*20241208*1200*ET*Original~'' # concat (map memberLines ms)"

definition bprLine :: "(rat \<Rightarrow> string) \<Rightarrow> Payment \<Rightarrow> string" where
  "bprLine nts payment =
     ''BPR*'' @ orElse (transactionHandlingCode payment) ''I'' @ ''*''
       @ numberOr nts (monetaryAmount payment) ''0'' @ ''*''
       @ orElse (creditDebitFlag payment) ''C'' @ ''*''
       @ orElse (paymentMethodCode payment) ''ACH'' @ ''*''
       @ orElse (paymentFormatCode payment) ''CCP'' @ ''**''
       @ orElse (originatingCompanyId payment) [] @ ''*''
       @ orElse (originatingCompanySupplementalCode payment) [] @ ''**''
       @ orElse (receivingCompanyId payment) [] @ ''*''
       @ orElse (receivingCompanySupplementalCode payment) [] @ ''*****''
       @ orElse (effectiveEntryDate payment) [] @ ''~''"

definition rmrLine :: "(rat \<Rightarrow> string) \<Rightarrow> Remittance \<Rightarrow> string" where
  "rmrLine nts remittance =
     ''RMR*'' @ orElse (referenceQualifier remittance) ''PO'' @ ''*''
       @ orElse (memberGroupNumber remittance) [] @ ''*''
       @ numberOr nts (remittanceAmount remittance) ''0'' @ ''*''
       @ numberOr nts (adjustmentAmount remittance) ''0'' @ ''~''"

definition paymentLines :: "(rat \<Rightarrow> string) \<Rightarrow> Payment \<Rightarrow> string list" where
  "paymentLines nts payment =
     bprLine nts payment # map (rmrLine nts) (remittanceDetails payment)"

definition reconstruct820Segments :: "(rat \<Rightarrow> string) \<Rightarrow> Payment list \<Rightarrow> string list" where
  "reconstruct820Segments nts ps = concat (map (paymentLines nts) ps)"

definition isaLine :: "InterchangeControl \<Rightarrow> string" where
  "isaLine isa =
     ''ISA*'' @ orElse (authorizationQualifier isa) ''00'' @ ''*''
       @ orElse (authorizationInformation isa) ''          '' @ ''*''
       @ orElse (securityQualifier isa) ''00'' @ ''*''
       @ orElse (securityInformation isa) ''          '' @ ''*''
       @ orElse (senderQualifier isa) ''ZZ'' @ ''*''
       @ padEnd 15 (orElse (senderId isa) []) @ ''*''
       @ orElse (receiverQualifier isa) ''ZZ'' @ ''*''
       @ padEnd 15 (orElse (receiverId isa) []) @ ''*''
       @ orElse (interchangeDate isa) [] @ ''*''
       @ orElse (interchangeTime isa) [] @ ''*U*''
       @ orElse (controlVersion isa) ''00501'' @ ''*''
       @ orElse (isaControlNumber isa) ''000000001'' @ ''*''
       @ orElse (acknowledgmentRequested isa) ''0'' @ ''*''
       @ orElse (isaTestIndicator isa) ''P'' @ ''*>''"

definition gsLine :: "FunctionalGroup \<Rightarrow> string" where
  "gsLine gs =
     ''GS*'' @ orElse (functionalCode gs) ''BE'' @ ''*''
       @ orElse (applicationSender gs) [] @ ''*''
       @ orElse (applicationReceiver gs) [] @ ''*''
       @ orElse (gsDate gs) [] @ ''*''
       @ orElse (gsTime gs) [] @ ''*''
       @ orElse (groupControlNumber gs) ''1'' @ ''*''
       @ orElse (responsibleAgency gs) ''X'' @ ''*''
       @ orElse (gsVersion gs) ''005010X220A1'' @ ''~''"

definition stLine :: "TransactionSet \<Rightarrow> string" where
  "stLine st =
     ''ST*'' @ orElse (transactionSetIdentifier st) ''834'' @ ''*''
       @ orElse (transactionSetControlNumber st) ''0001'' @ ''~''"

text \<open>
  \<^verbatim>\<open>convertJSONToEDI\<close>. The three header objects of a conversion result are always
  objects, so the guards \<^verbatim>\<open>if (isa)\<close>, \<^verbatim>\<open>if (gs)\<close>, \<^verbatim>\<open>if (st)\<close> hold and the three
  header lines are always written.
\<close>

definition convertJSONToEDI :: "(rat \<Rightarrow> string) \<Rightarrow> JSONConversionResult \<Rightarrow> string" where
  "convertJSONToEDI nts jsonData =
     (let isa = interchangeControl (header jsonData);
          gs = functionalGroup (header jsonData);
          st = transactionSet (header jsonData);
          lines1 = [isaLine isa, gsLine gs, stLine st]
                     @ (if originalFormat jsonData = T834
                        then reconstruct834Segments (members (data jsonData))
                        else if originalFormat jsonData = T820
                        then reconstruct820Segments nts (payments (data jsonData))
                        else []);
          lines2 = lines1 @ [''SE*'' @ showNat (length lines1 + 1) @ ''*''
                               @ orElse (transactionSetControlNumber st) ''0001'' @ ''~''];
          lines3 = lines2 @ [''GE*1*'' @ orElse (groupControlNumber gs) ''1'' @ ''~''];
          lines4 = lines3 @ [''IEA*1*'' @ orElse (isaControlNumber isa) ''000000001'' @ ''~'']
      in joinLines lines4)"

section \<open>Member lifecycle tracker (lifecycleTracker.ts)\<close>




record Alert =
  alertType :: string
  alertSeverity :: string
  alertMessage :: string
  alertMemberId :: string





section \<open>Properties of the tokenizers\<close>

lemma consHead_nonempty: "consHead c xs \<noteq> []"
  by (cases xs) auto

lemma splitOn_nonempty: "splitOn p s \<noteq> []"
  by (induction s) (auto simp: consHead_nonempty)

lemma tag_is_head: "orElse (elem (splitOn p s) 0) [] = hd (splitOn p s)"
  using splitOn_nonempty [of p s]
  by (cases "splitOn p s") (auto simp: elem_def orElse_def)

lemma splitOn_no_delimiter: "list_all (\<lambda>c. \<not> p c) s \<Longrightarrow> splitOn p s = [s]"
  by (induction s) auto

lemma splitOn_length: "length (splitOn p s) = Suc (length (filter p s))"
proof (induction s)
  case Nil
  then show ?case by simp
next
  case (Cons c cs)
  then show ?case by (cases "splitOn p cs") auto
qed

lemma splitOn_pieces: "list_all (list_all (\<lambda>c. \<not> p c)) (splitOn p s)"
proof (induction s)
  case Nil
  then show ?case by simp
next
  case (Cons c cs)
  then show ?case by (cases "splitOn p cs") auto
qed

lemma splitOn_rejoin:
  "concat (map (\<lambda>(e, d). e @ [d]) (zip (butlast (splitOn p s)) (filter p s)))
     @ last (splitOn p s) = s"
proof (induction s)
  case Nil
  then show ?case by simp
next
  case (Cons c cs)
  obtain y ys where sp: "splitOn p cs = y # ys"
    using splitOn_nonempty [of p cs] by (cases "splitOn p cs") auto
  show ?case
  proof (cases "p c")
    case True
    with Cons sp show ?thesis by simp
  next
    case False
    show ?thesis
    proof (cases ys)
      case Nil
      with Cons sp False show ?thesis by simp
    next
      case ys: (Cons z zs)
      have "length (filter p cs) = Suc (length zs)"
        using splitOn_length [of p cs] sp ys by simp
      then obtain d ds where f: "filter p cs = d # ds"
        by (cases "filter p cs") auto
      with Cons.IH sp ys False show ?thesis by simp
    qed
  qed
qed


lemma upt_zip_Cons:
  "zip [i ..< i + length (l # ls)] (l # ls) = (i, l) # zip [Suc i ..< Suc i + length ls] ls"
  by (simp add: upt_conv_Cons del: upt_Suc)

lemma forEach_segments:
  "fst (forEach ls i st) = fst st @
     map (\<lambda>(k, l). \<lparr>tag = hd (splitOn isDelimiter (trim l)),
                     elements = splitOn isDelimiter (trim l), raw = trim l,
                     lineNumber = k + 1\<rparr>)
       (filter (\<lambda>(k, l). nonBlank l) (zip [i ..< i + length ls] ls))"
proof (induction ls arbitrary: i st)
  case Nil
  then show ?case by simp
next
  case (Cons l ls)
  show ?case
    unfolding upt_zip_Cons using Cons.IH [of "Suc i"]
    by (simp add: Let_def nonBlank_def tag_is_head)
qed

lemma legacy_forEach_segments:
  "fst (legacy_forEach ls i st) = fst st @
     map (\<lambda>(k, l). \<lparr>tag = hd (splitOn legacy_isDelimiter (trim l)),
                     elements = splitOn legacy_isDelimiter (trim l), raw = trim l,
                     lineNumber = k + 1\<rparr>)
       (filter (\<lambda>(k, l). nonBlank l) (zip [i ..< i + length ls] ls))"
proof (induction ls arbitrary: i st)
  case Nil
  then show ?case by simp
next
  case (Cons l ls)
  show ?case
    unfolding upt_zip_Cons using Cons.IH [of "Suc i"]
    by (simp add: Let_def nonBlank_def tag_is_head)
qed

lemma filter_zip_all:
  "list_all P ls \<Longrightarrow> filter (\<lambda>(k, l). P l) (zip ks ls) = zip ks ls"
  by (rule filter_True) (auto simp: list_all_iff dest: set_zip_rightD)

lemma list_all_filter: "list_all P (filter P xs)"
  by (induction xs) auto

text \<open>The segments of a parse, one per retained line, numbered by position among them.\<close>

lemma parseEDIContent_segments:
  "segments (parseEDIContent s) =
     map (\<lambda>(k, l). \<lparr>tag = hd (splitOn isDelimiter (trim l)),
                     elements = splitOn isDelimiter (trim l), raw = trim l,
                     lineNumber = k + 1\<rparr>)
       (zip [0 ..< length (filter nonBlank (splitLines s))] (filter nonBlank (splitLines s)))"
  using forEach_segments [of "filter nonBlank (splitLines s)" 0]
  by (simp add: parseEDIContent_def Let_def filter_zip_all list_all_filter)

lemma legacy_parseEDIContent_segments:
  "segments (legacy_parseEDIContent s) =
     map (\<lambda>(k, l). \<lparr>tag = hd (splitOn legacy_isDelimiter (trim l)),
                     elements = splitOn legacy_isDelimiter (trim l), raw = trim l,
                     lineNumber = k + 1\<rparr>)
       (zip [0 ..< length (filter nonBlank (splitLines s))] (filter nonBlank (splitLines s)))"
  using legacy_forEach_segments [of "filter nonBlank (splitLines s)" 0]
  by (simp add: legacy_parseEDIContent_def Let_def filter_zip_all list_all_filter)

lemma parsed_segment_shape:
  assumes "seg \<in> set (segments (parseEDIContent s))"
  shows "elements seg = splitOn isDelimiter (raw seg) \<and> tag seg = hd (elements seg)
         \<and> raw seg \<noteq> [] \<and> (\<exists>l \<in> set (splitLines s). raw seg = trim l)"
proof -
  from assms obtain k l where
    kl: "(k, l) \<in> set (zip [0 ..< length (filter nonBlank (splitLines s))]
                          (filter nonBlank (splitLines s)))"
    and seg: "seg = \<lparr>tag = hd (splitOn isDelimiter (trim l)),
                     elements = splitOn isDelimiter (trim l), raw = trim l,
                     lineNumber = k + 1\<rparr>"
    unfolding parseEDIContent_segments by auto
  from kl have "l \<in> set (filter nonBlank (splitLines s))" by (rule set_zip_rightD)
  then have "l \<in> set (splitLines s)" and "trim l \<noteq> []" by (auto simp: nonBlank_def)
  with seg show ?thesis by auto
qed

lemma legacy_parsed_segment_shape:
  assumes "seg \<in> set (segments (legacy_parseEDIContent s))"
  shows "elements seg = splitOn legacy_isDelimiter (raw seg) \<and> tag seg = hd (elements seg)
         \<and> raw seg \<noteq> [] \<and> (\<exists>l \<in> set (splitLines s). raw seg = trim l)"
proof -
  from assms obtain k l where
    kl: "(k, l) \<in> set (zip [0 ..< length (filter nonBlank (splitLines s))]
                          (filter nonBlank (splitLines s)))"
    and seg: "seg = \<lparr>tag = hd (splitOn legacy_isDelimiter (trim l)),
                     elements = splitOn legacy_isDelimiter (trim l), raw = trim l,
                     lineNumber = k + 1\<rparr>"
    unfolding legacy_parseEDIContent_segments by auto
  from kl have "l \<in> set (filter nonBlank (splitLines s))" by (rule set_zip_rightD)
  then have "l \<in> set (splitLines s)" and "trim l \<noteq> []" by (auto simp: nonBlank_def)
  with seg show ?thesis by auto
qed




lemmas tokenizer_defs =
  parseEDIContent_def legacy_parseEDIContent_def nonBlank_def trim_def isWhiteSpace_def
  isDelimiter_def legacy_isDelimiter_def elem_def orElse_def Let_def
  detectEDIFormat_def detectEDIType_def toLowerCase_def lowerChar_def formatOfCode_def
  isDigit_def

text \<open>
  Claim C7. Tokenization is a total function: for every input string, the empty string, a
  string of white space only and a string whose last line is unterminated included, both
  tokenizers return, and the number of segments is the number of lines of the input that
  are non-blank after trimming.
\<close>

theorem tokenize_total_length:
  "length (segments (parseEDIContent s)) = length (filter nonBlank (splitLines s))
   \<and> length (segments (legacy_parseEDIContent s)) = length (filter nonBlank (splitLines s))"
  by (simp add: parseEDIContent_segments legacy_parseEDIContent_segments)

theorem tokenize_total_length_witness:
  "length (segments (parseEDIContent [])) = 0
   \<and> length (segments (legacy_parseEDIContent [CHR 0x20, CHR 0x0D, CHR 0x0A, CHR 0x09])) = 0
   \<and> length (segments (parseEDIContent (''A*1'' @ [CHR 0x0A, CHR 0x20, CHR 0x0A] @ ''B''))) = 2"
  using tokenize_total_length [of "[]"]
    tokenize_total_length [of "[CHR 0x20, CHR 0x0D, CHR 0x0A, CHR 0x09]"]
    tokenize_total_length [of "''A*1'' @ [CHR 0x0A, CHR 0x20, CHR 0x0A] @ ''B''"]
  by (simp add: nonBlank_def trim_def isWhiteSpace_def)

text \<open>
  Claim C1, as stated, fails: the tokenizer stores every token of the line in \<open>elements\<close>,
  the tag included. A line that holds only the tag \<^verbatim>\<open>IEA\<close> gives the one-element sequence
  \<^verbatim>\<open>["IEA"]\<close>, not the empty one, and \<^verbatim>\<open>[tag, ...elements]\<close> is not the split of the line.
\<close>

theorem tag_only_line_counterexample:
  "segments (parseEDIContent ''IEA'') =
     [\<lparr>tag = ''IEA'', elements = [''IEA''], raw = ''IEA'', lineNumber = 1\<rparr>]
   \<and> elements (hd (segments (parseEDIContent ''IEA''))) \<noteq> []
   \<and> tag (hd (segments (parseEDIContent ''IEA''))) # elements (hd (segments (parseEDIContent ''IEA'')))
       \<noteq> splitOn isDelimiter (raw (hd (segments (parseEDIContent ''IEA''))))"
  by (simp add: tokenizer_defs)

text \<open>
  Claim C1, amended. For every segment that universalEDIParser.ts produces, \<open>elements\<close> is
  exactly the raw line split at every \<^verbatim>\<open>*\<close>, \<^verbatim>\<open>~\<close> and \<^verbatim>\<open>^\<close>; for every segment that
  ediParser.ts produces, it is the raw line split at every \<^verbatim>\<open>*\<close> and \<^verbatim>\<open>~\<close> (a \<^verbatim>\<open>^\<close> stays
  inside its piece). In both, the split is stated without the splitting function: there
  is one more piece than the line has delimiters, no piece holds a delimiter, and the
  pieces put back in order with the line's delimiters between them give the line, so order
  and empty placeholders are kept. The first piece is the tag, which is therefore part of
  \<open>elements\<close>; a line without a delimiter yields the one-element sequence that holds the tag.
\<close>

theorem elements_are_all_tokens:
  "(seg \<in> set (segments (parseEDIContent s)) \<longrightarrow>
      elements seg \<noteq> [] \<and> hd (elements seg) = tag seg
      \<and> length (elements seg) =
          Suc (length (filter (\<lambda>c. c = CHR ''*'' \<or> c = CHR ''~'' \<or> c = CHR ''^'') (raw seg)))
      \<and> list_all (list_all (\<lambda>c. \<not> (c = CHR ''*'' \<or> c = CHR ''~'' \<or> c = CHR ''^'')))
            (elements seg)
      \<and> concat (map (\<lambda>(e, d). e @ [d])
            (zip (butlast (elements seg))
               (filter (\<lambda>c. c = CHR ''*'' \<or> c = CHR ''~'' \<or> c = CHR ''^'') (raw seg))))
          @ last (elements seg) = raw seg
      \<and> (filter (\<lambda>c. c = CHR ''*'' \<or> c = CHR ''~'' \<or> c = CHR ''^'') (raw seg) = []
            \<longrightarrow> elements seg = [tag seg] \<and> tag seg = raw seg))
   \<and> (seg \<in> set (segments (legacy_parseEDIContent s)) \<longrightarrow>
      elements seg \<noteq> [] \<and> hd (elements seg) = tag seg
      \<and> length (elements seg) =
          Suc (length (filter (\<lambda>c. c = CHR ''*'' \<or> c = CHR ''~'') (raw seg)))
      \<and> list_all (list_all (\<lambda>c. \<not> (c = CHR ''*'' \<or> c = CHR ''~''))) (elements seg)
      \<and> concat (map (\<lambda>(e, d). e @ [d])
            (zip (butlast (elements seg))
               (filter (\<lambda>c. c = CHR ''*'' \<or> c = CHR ''~'') (raw seg))))
          @ last (elements seg) = raw seg
      \<and> (filter (\<lambda>c. c = CHR ''*'' \<or> c = CHR ''~'') (raw seg) = []
            \<longrightarrow> elements seg = [tag seg] \<and> tag seg = raw seg))"
proof (intro conjI impI)
  assume a: "seg \<in> set (segments (parseEDIContent s))"
  have d: "(\<lambda>c. c = CHR ''*'' \<or> c = CHR ''~'' \<or> c = CHR ''^'') = isDelimiter"
    by (rule ext) (simp add: isDelimiter_def)
  from parsed_segment_shape [OF a]
  have e: "elements seg = splitOn isDelimiter (raw seg)" and t: "tag seg = hd (elements seg)"
    by auto
  show "elements seg \<noteq> []" using e splitOn_nonempty by simp
  show "hd (elements seg) = tag seg" using t by simp
  show "length (elements seg) =
          Suc (length (filter (\<lambda>c. c = CHR ''*'' \<or> c = CHR ''~'' \<or> c = CHR ''^'') (raw seg)))"
    unfolding d e by (rule splitOn_length)
  show "list_all (list_all (\<lambda>c. \<not> (c = CHR ''*'' \<or> c = CHR ''~'' \<or> c = CHR ''^'')))
          (elements seg)"
    using splitOn_pieces [of isDelimiter "raw seg"] unfolding e by (simp add: isDelimiter_def)
  show "concat (map (\<lambda>(e, d). e @ [d])
            (zip (butlast (elements seg))
               (filter (\<lambda>c. c = CHR ''*'' \<or> c = CHR ''~'' \<or> c = CHR ''^'') (raw seg))))
          @ last (elements seg) = raw seg"
    unfolding d e by (rule splitOn_rejoin)
  show "elements seg = [tag seg]" "tag seg = raw seg"
    if "filter (\<lambda>c. c = CHR ''*'' \<or> c = CHR ''~'' \<or> c = CHR ''^'') (raw seg) = []"
  proof -
    from that have "list_all (\<lambda>c. \<not> isDelimiter c) (raw seg)"
      unfolding d by (simp add: filter_empty_conv list_all_iff)
    from splitOn_no_delimiter [OF this] e t
    show "elements seg = [tag seg]" "tag seg = raw seg" by simp_all
  qed
next
  assume a: "seg \<in> set (segments (legacy_parseEDIContent s))"
  have d: "(\<lambda>c. c = CHR ''*'' \<or> c = CHR ''~'') = legacy_isDelimiter"
    by (rule ext) (simp add: legacy_isDelimiter_def)
  from legacy_parsed_segment_shape [OF a]
  have e: "elements seg = splitOn legacy_isDelimiter (raw seg)"
    and t: "tag seg = hd (elements seg)"
    by auto
  show "elements seg \<noteq> []" using e splitOn_nonempty by simp
  show "hd (elements seg) = tag seg" using t by simp
  show "length (elements seg) =
          Suc (length (filter (\<lambda>c. c = CHR ''*'' \<or> c = CHR ''~'') (raw seg)))"
    unfolding d e by (rule splitOn_length)
  show "list_all (list_all (\<lambda>c. \<not> (c = CHR ''*'' \<or> c = CHR ''~''))) (elements seg)"
    using splitOn_pieces [of legacy_isDelimiter "raw seg"] unfolding e
    by (simp add: legacy_isDelimiter_def)
  show "concat (map (\<lambda>(e, d). e @ [d])
            (zip (butlast (elements seg))
               (filter (\<lambda>c. c = CHR ''*'' \<or> c = CHR ''~'') (raw seg))))
          @ last (elements seg) = raw seg"
    unfolding d e by (rule splitOn_rejoin)
  show "elements seg = [tag seg]" "tag seg = raw seg"
    if "filter (\<lambda>c. c = CHR ''*'' \<or> c = CHR ''~'') (raw seg) = []"
  proof -
    from that have "list_all (\<lambda>c. \<not> legacy_isDelimiter c) (raw seg)"
      unfolding d by (simp add: filter_empty_conv list_all_iff)
    from splitOn_no_delimiter [OF this] e t
    show "elements seg = [tag seg]" "tag seg = raw seg" by simp_all
  qed
qed

text \<open>
  The witness: the line \<^verbatim>\<open>NM1*IL**A^B~\<close> (an empty field, a \<^verbatim>\<open>^\<close> and a trailing delimiter)
  in both tokenizers, and the tag-only line \<^verbatim>\<open>IEA\<close>.
\<close>

theorem elements_are_all_tokens_witness:
  "\<lparr>tag = ''NM1'', elements = [''NM1'', ''IL'', [], ''A'', ''B'', []], raw = ''NM1*IL**A^B~'',
     lineNumber = 1\<rparr> \<in> set (segments (parseEDIContent ''NM1*IL**A^B~''))
   \<and> \<lparr>tag = ''NM1'', elements = [''NM1'', ''IL'', [], ''A^B'', []], raw = ''NM1*IL**A^B~'',
     lineNumber = 1\<rparr> \<in> set (segments (legacy_parseEDIContent ''NM1*IL**A^B~''))
   \<and> length [''NM1'', ''IL'', [], ''A'', ''B'', []] =
       Suc (length (filter (\<lambda>c. c = CHR ''*'' \<or> c = CHR ''~'' \<or> c = CHR ''^'') ''NM1*IL**A^B~''))
   \<and> length [''NM1'', ''IL'', [], ''A^B'', []] =
       Suc (length (filter (\<lambda>c. c = CHR ''*'' \<or> c = CHR ''~'') ''NM1*IL**A^B~''))
   \<and> \<lparr>tag = ''IEA'', elements = [''IEA''], raw = ''IEA'', lineNumber = 1\<rparr>
       \<in> set (segments (parseEDIContent ''IEA''))
   \<and> \<lparr>tag = ''IEA'', elements = [''IEA''], raw = ''IEA'', lineNumber = 1\<rparr>
       \<in> set (segments (legacy_parseEDIContent ''IEA''))
   \<and> filter (\<lambda>c. c = CHR ''*'' \<or> c = CHR ''~'' \<or> c = CHR ''^'') ''IEA'' = []"
  using elements_are_all_tokens
      [of "\<lparr>tag = ''NM1'', elements = [''NM1'', ''IL'', [], ''A'', ''B'', []],
             raw = ''NM1*IL**A^B~'', lineNumber = 1\<rparr>" "''NM1*IL**A^B~''"]
    elements_are_all_tokens
      [of "\<lparr>tag = ''NM1'', elements = [''NM1'', ''IL'', [], ''A^B'', []],
             raw = ''NM1*IL**A^B~'', lineNumber = 1\<rparr>" "''NM1*IL**A^B~''"]
    elements_are_all_tokens
      [of "\<lparr>tag = ''IEA'', elements = [''IEA''], raw = ''IEA'', lineNumber = 1\<rparr>" "''IEA''"]
  by (simp add: tokenizer_defs)









section \<open>Properties of the extractors\<close>

lemma step834_count:
  "length (push (fst (step834 st seg)) (snd (step834 st seg))) =
     length (push (fst st) (snd st)) + (if tag seg = ''INS'' then 1 else 0)"
  by (cases st) (auto simp: step834_def push_def Let_def split: option.splits)

lemma step834_codes:
  "map memberLevelCode (push (fst (step834 st seg)) (snd (step834 st seg))) =
     map memberLevelCode (push (fst st) (snd st))
       @ (if tag seg = ''INS'' then [elem (elements seg) 1] else [])"
  by (cases st) (auto simp: step834_def push_def Let_def split: option.splits)

lemma foldl_step834_codes:
  "map memberLevelCode (push (fst (foldl step834 st segs)) (snd (foldl step834 st segs))) =
     map memberLevelCode (push (fst st) (snd st))
       @ map (\<lambda>s. elem (elements s) 1) (filter (\<lambda>s. tag s = ''INS'') segs)"
proof (induction segs arbitrary: st)
  case Nil
  then show ?case by simp
next
  case (Cons seg segs)
  show ?case
    using Cons.IH [of "step834 st seg"] step834_codes [of st seg] by simp
qed

lemma step820_codes:
  "map transactionHandlingCode (push (fst (step820 st seg)) (snd (step820 st seg))) =
     map transactionHandlingCode (push (fst st) (snd st))
       @ (if tag seg = ''BPR'' then [elem (elements seg) 1] else [])"
  by (cases st) (auto simp: step820_def push_def Let_def split: option.splits)

lemma foldl_step820_codes:
  "map transactionHandlingCode (push (fst (foldl step820 st segs)) (snd (foldl step820 st segs))) =
     map transactionHandlingCode (push (fst st) (snd st))
       @ map (\<lambda>s. elem (elements s) 1) (filter (\<lambda>s. tag s = ''BPR'') segs)"
proof (induction segs arbitrary: st)
  case Nil
  then show ?case by simp
next
  case (Cons seg segs)
  show ?case
    using Cons.IH [of "step820 st seg"] step820_codes [of st seg] by simp
qed

lemma extract834Members_codes:
  "map memberLevelCode (extract834Members segs) =
     map (\<lambda>s. elem (elements s) 1) (filter (\<lambda>s. tag s = ''INS'') segs)"
  using foldl_step834_codes [of "([], None)" segs]
  by (simp add: extract834Members_def Let_def push_def)

lemma extract820Payments_codes:
  "map transactionHandlingCode (extract820Payments segs) =
     map (\<lambda>s. elem (elements s) 1) (filter (\<lambda>s. tag s = ''BPR'') segs)"
  using foldl_step820_codes [of "([], None)" segs]
  by (simp add: extract820Payments_def Let_def push_def)

text \<open>
  Claim C8. For every segment stream, 834 member extraction yields exactly one member per
  INS segment, in the order of the INS segments (the member codes are those of the INS
  segments, one each, so no entity is appended twice and none is lost); a stream without
  INS yields the empty sequence. The same holds for 820 payment extraction and BPR.
\<close>

theorem one_entity_per_start_tag:
  "length (extract834Members segs) = length (filter (\<lambda>s. tag s = ''INS'') segs)
   \<and> map memberLevelCode (extract834Members segs) =
       map (\<lambda>s. elem (elements s) 1) (filter (\<lambda>s. tag s = ''INS'') segs)
   \<and> length (extract820Payments segs) = length (filter (\<lambda>s. tag s = ''BPR'') segs)
   \<and> map transactionHandlingCode (extract820Payments segs) =
       map (\<lambda>s. elem (elements s) 1) (filter (\<lambda>s. tag s = ''BPR'') segs)"
proof -
  have "length (extract834Members segs) = length (filter (\<lambda>s. tag s = ''INS'') segs)"
    using arg_cong [where f = length, OF extract834Members_codes [of segs]] by simp
  moreover have "length (extract820Payments segs) = length (filter (\<lambda>s. tag s = ''BPR'') segs)"
    using arg_cong [where f = length, OF extract820Payments_codes [of segs]] by simp
  ultimately show ?thesis
    using extract834Members_codes [of segs] extract820Payments_codes [of segs] by blast
qed

lemmas extractor_defs =
  extract834Members_def extract820Payments_def step834_def step820_def push_def
  parseFloat_def parseUnsigned_def parseExponent_def scale10_def digitsVal_def

theorem one_entity_per_start_tag_witness:
  "length (extract834Members (segments (parseEDIContent
      (''INS*Y*18'' @ [CHR 0x0A] @ ''NM1*IL*1*DOE'' @ [CHR 0x0A] @ ''INS*N*19''
        @ [CHR 0x0A] @ ''INS*N*01'')))) = 3
   \<and> extract834Members (segments (parseEDIContent ''ISA*00'')) = []
   \<and> length (extract820Payments (segments (parseEDIContent
      (''BPR*C*10'' @ [CHR 0x0A] @ ''RMR*PO*1*10'' @ [CHR 0x0A] @ ''BPR*D*20'')))) = 2
   \<and> extract820Payments (segments (parseEDIContent ''ISA*00'')) = []"
  using one_entity_per_start_tag [of "segments (parseEDIContent
      (''INS*Y*18'' @ [CHR 0x0A] @ ''NM1*IL*1*DOE'' @ [CHR 0x0A] @ ''INS*N*19''
        @ [CHR 0x0A] @ ''INS*N*01''))"]
    one_entity_per_start_tag [of "segments (parseEDIContent ''ISA*00'')"]
    one_entity_per_start_tag [of "segments (parseEDIContent
      (''BPR*C*10'' @ [CHR 0x0A] @ ''RMR*PO*1*10'' @ [CHR 0x0A] @ ''BPR*D*20''))"]
  by (simp add: tokenizer_defs)

text \<open>
  Claim C6. A stream with the segments \<^verbatim>\<open>BPR*C*abc\<close>, \<^verbatim>\<open>RMR*PO*G1*n/a*\<close>, \<^verbatim>\<open>BPR\<close> and
  \<^verbatim>\<open>BPR*C*12.50\<close>: the non-numeric BPR amount and the non-numeric RMR remittance amount
  are extracted as NaN, not as 0; the empty adjustment amount and the missing BPR amount
  are 0, nothing raises, and the payments after the malformed one are still extracted.
\<close>

theorem non_numeric_amount_is_NaN:
  "map monetaryAmount (extract820Payments (segments (parseEDIContent
      (''BPR*C*abc'' @ [CHR 0x0A] @ ''RMR*PO*G1*n/a*'' @ [CHR 0x0A] @ ''BPR''
        @ [CHR 0x0A] @ ''BPR*C*12.50''))))
     = [NaN, Num 0, Num (25 / 2)]
   \<and> map (map remittanceAmount \<circ> remittanceDetails) (extract820Payments (segments (parseEDIContent
      (''BPR*C*abc'' @ [CHR 0x0A] @ ''RMR*PO*G1*n/a*'' @ [CHR 0x0A] @ ''BPR''
        @ [CHR 0x0A] @ ''BPR*C*12.50''))))
     = [[NaN], [], []]
   \<and> map (map adjustmentAmount \<circ> remittanceDetails) (extract820Payments (segments (parseEDIContent
      (''BPR*C*abc'' @ [CHR 0x0A] @ ''RMR*PO*G1*n/a*'' @ [CHR 0x0A] @ ''BPR''
        @ [CHR 0x0A] @ ''BPR*C*12.50''))))
     = [[Num 0], [], []]"
  by (simp add: tokenizer_defs extractor_defs)

section \<open>Properties of the validator\<close>

text \<open>
  Claim C3. The transaction parsed from the one line \<^verbatim>\<open>ISA*00*X\<close> has type "unknown";
  the required-segment pass checks it against the 820 list and reports seven missing
  segments, BPR among them, each a critical issue.
\<close>

theorem unknown_type_checked_against_820_list:
  "type (legacy_parseEDIContent ''ISA*00*X'') = Unknown
   \<and> map errId (validateRequiredSegments (legacy_parseEDIContent ''ISA*00*X'') []) =
       [''missing-GS'', ''missing-ST'', ''missing-BPR'', ''missing-N1'', ''missing-SE'',
        ''missing-GE'', ''missing-IEA'']
   \<and> map errType (validateRequiredSegments (legacy_parseEDIContent ''ISA*00*X'') []) =
       [Critical, Critical, Critical, Critical, Critical, Critical, Critical]
   \<and> map description (validateRequiredSegments (legacy_parseEDIContent ''ISA*00*X'') []) ! 2 =
       ''EDI unknown transactions must include a BPR segment''"
  by code_simp

text \<open>
  Claim C2. The two-line sample of the specification, through ediParser.ts (the parser
  that every caller of the validator uses): the type is "unknown", the envelope pass and
  the control-number pass report nothing, the required-segment pass reports six missing
  segments and the result is not valid. Through universalEDIParser.ts, whose delimiter
  class holds \<^verbatim>\<open>^\<close>, the control-number pass reports a mismatch as well.
\<close>

theorem sample_scenario_is_invalid:
  "detectEDIType (''ISA*00*          *00*          *ZZ*SENDER*ZZ*RECEIVER*250930*1200*^*00501*000000001*0*P*:''
          @ [CHR 0x0A] @ ''IEA*1*000000001'') = Unknown
   \<and> detectEDIFormat (''ISA*00*          *00*          *ZZ*SENDER*ZZ*RECEIVER*250930*1200*^*00501*000000001*0*P*:''
          @ [CHR 0x0A] @ ''IEA*1*000000001'') = Unknown
   \<and> validateSegmentSequence (legacy_parseEDIContent
        (''ISA*00*          *00*          *ZZ*SENDER*ZZ*RECEIVER*250930*1200*^*00501*000000001*0*P*:''
          @ [CHR 0x0A] @ ''IEA*1*000000001'')) [] = []
   \<and> validateControlNumbers (legacy_parseEDIContent
        (''ISA*00*          *00*          *ZZ*SENDER*ZZ*RECEIVER*250930*1200*^*00501*000000001*0*P*:''
          @ [CHR 0x0A] @ ''IEA*1*000000001'')) [] = []
   \<and> map errId (validateRequiredSegments (legacy_parseEDIContent
        (''ISA*00*          *00*          *ZZ*SENDER*ZZ*RECEIVER*250930*1200*^*00501*000000001*0*P*:''
          @ [CHR 0x0A] @ ''IEA*1*000000001'')) []) =
       [''missing-GS'', ''missing-ST'', ''missing-BPR'', ''missing-N1'', ''missing-SE'',
        ''missing-GE'']
   \<and> isValid (validateEDITransaction (legacy_parseEDIContent
        (''ISA*00*          *00*          *ZZ*SENDER*ZZ*RECEIVER*250930*1200*^*00501*000000001*0*P*:''
          @ [CHR 0x0A] @ ''IEA*1*000000001''))) = False
   \<and> totalIssues (validateEDITransaction (legacy_parseEDIContent
        (''ISA*00*          *00*          *ZZ*SENDER*ZZ*RECEIVER*250930*1200*^*00501*000000001*0*P*:''
          @ [CHR 0x0A] @ ''IEA*1*000000001''))) = 6
   \<and> map errId (errors (validateEDITransaction (parseEDIContent
        (''ISA*00*          *00*          *ZZ*SENDER*ZZ*RECEIVER*250930*1200*^*00501*000000001*0*P*:''
          @ [CHR 0x0A] @ ''IEA*1*000000001'')))) =
       [''missing-GS'', ''missing-ST'', ''missing-BPR'', ''missing-N1'', ''missing-SE'',
        ''missing-GE'', ''control-number-mismatch'']"
  by code_simp

section \<open>The one condition that raises\<close>




section \<open>Tag-inclusive indexing and the positional reads\<close>





end
